theory Spec2Isabelle
  imports Main
begin

section \<open>Shared helpers\<close>

text \<open>
  A JavaScript template literal renders a non-negative integer (\<open>Date.now()\<close>, a port
  number, an array length) in decimal.
\<close>

definition digit_char :: "nat \<Rightarrow> char" where
  "digit_char d = ''0123456789'' ! d"

fun num_str :: "nat \<Rightarrow> string" where
  "num_str n = (if n < 10 then [digit_char n] else num_str (n div 10) @ [digit_char (n mod 10)])"

declare num_str.simps [simp del]

text \<open>
  A query parameter read as \<open>req.query.x as string\<close> is absent (\<open>None\<close>) or a string.
  \<open>!x\<close> holds for the absent and for the empty one; \<open>x || ''\<close> maps both to the empty string.
\<close>

definition falsy :: "string option \<Rightarrow> bool" where
  "falsy q = (case q of None \<Rightarrow> True | Some x \<Rightarrow> x = '''')"

definition or_empty :: "string option \<Rightarrow> string" where
  "or_empty q = (case q of None \<Rightarrow> '''' | Some x \<Rightarrow> x)"

text \<open>
  Exceptions: the \<open>TypeError\<close> of reading a property of \<open>undefined\<close>, the error Express
  raises when \<open>res.json\<close> is called on a response that was already answered
  (\<open>ERR_HTTP_HEADERS_SENT\<close>), and an \<open>Error\<close> with its message, as a failing \<open>res.write\<close>
  throws.
\<close>

datatype lp_error = TypeError | HeadersSent

datatype error = Error string

text \<open>\<open>xs.splice(i, 1)\<close> and \<open>xs.indexOf(x)\<close> (\<open>None\<close> for -1).\<close>

definition splice1 :: "nat \<Rightarrow> 'a list \<Rightarrow> 'a list" where
  "splice1 i xs = take i xs @ drop (Suc i) xs"

fun indexOf :: "'a \<Rightarrow> 'a list \<Rightarrow> nat option" where
  "indexOf x [] = None"
| "indexOf x (y # ys) = (if y = x then Some 0 else map_option Suc (indexOf x ys))"


section \<open>Job stores as JavaScript objects\<close>

text \<open>
  Both polling servers keep their jobs in an object literal, \<open>const jobs = {}\<close>. Reading
  \<open>jobs[k]\<close> for a key the object does not own finds what the object inherits from
  \<open>Object.prototype\<close> under the names below (a function or an object, never \<open>undefined\<close>,
  and with none of a job's properties), and \<open>undefined\<close> for every other key. The stores are
  modelled as maps of their own properties; \<open>get_property\<close> is the read \<open>jobs[k]\<close>.
\<close>

definition object_prototype_keys :: "string list" where
  "object_prototype_keys =
     [''constructor'', ''__defineGetter__'', ''__defineSetter__'', ''hasOwnProperty'',
      ''__lookupGetter__'', ''__lookupSetter__'', ''isPrototypeOf'', ''propertyIsEnumerable'',
      ''toString'', ''valueOf'', ''__proto__'', ''toLocaleString'']"

datatype 'a property = Own 'a | Inherited | Undefined

definition get_property :: "(string \<rightharpoonup> 'a) \<Rightarrow> string \<Rightarrow> 'a property" where
  "get_property ob k =
     (case ob k of
        Some v \<Rightarrow> Own v
      | None \<Rightarrow> if k \<in> set object_prototype_keys then Inherited else Undefined)"


section \<open>Long polling server (long-polling.ts)\<close>

datatype job_status = Pending | Processing | Completed | Failed

fun status_str :: "job_status \<Rightarrow> string" where
  "status_str Pending = ''pending''"
| "status_str Processing = ''processing''"
| "status_str Completed = ''completed''"
| "status_str Failed = ''failed''"

record job =
  job_id :: string
  status :: job_status
  progress :: nat
  result :: "string option"
  lastUpdated :: int

text \<open>
  What \<open>jobs[jobId]\<close> refers to when it is not \<open>undefined\<close>: the job object at an address,
  or an inherited object.
\<close>

datatype job_ref = JobAt nat | Builtin

text \<open>
  A held request. \<open>res\<close> is the identity of the held response object, \<open>timeout\<close> the
  handle \<open>setTimeout\<close> returned, \<open>lastKnownStatus\<close> the value of \<open>currentJob.status\<close>
  when it was parked (\<open>None\<close> for \<open>undefined\<close>).
\<close>

record waiting_client =
  res :: nat
  jobId :: string
  lastKnownStatus :: "string option"
  timeout :: nat

text \<open>
  The closure of the timeout callback of one poll request: it captured \<open>jobId\<close>,
  \<open>res\<close> and \<open>currentJob\<close>.
\<close>

record poll_timer =
  tm_jobId :: string
  tm_res :: nat
  tm_currentJob :: job_ref

text \<open>
  The bodies the server passes to \<open>res.json\<close>; \<open>NotFound\<close> goes out with status 404. The
  last three are the bodies built from an inherited object: each of its job properties is
  \<open>undefined\<close>, so the body has the job id and the marker only.
\<close>

datatype response =
    JobCreated string
  | NotFound
  | Immediate string job_status nat "string option" int
  | TimedOut string job_status nat
  | StatusChanged string job_status nat "string option" int
  | ImmediateBare string
  | TimedOutBare string
  | StatusChangedBare string

text \<open>
  The server's state. Job objects live in \<open>heap\<close> and are mutated in place; \<open>jobs\<close>
  maps an id the store owns to the object's address. \<open>timers\<close> holds the pending poll
  timeouts, \<open>sent\<close> the answers given by \<open>res.json\<close> in the order they were given, each
  with the response object it was given on. In a route handler the response object is
  the one of the request being handled, which nothing has answered yet; a timer callback
  answers a response that was held, and \<open>res.json\<close> throws there when that response has
  been answered in the meantime. Nothing catches an exception of a timer callback: it
  ends the process.
\<close>

record lp_state =
  heap :: "nat \<Rightarrow> job"
  next_addr :: nat
  jobs :: "string \<rightharpoonup> nat"
  waitingClients :: "waiting_client list"
  timers :: "nat \<rightharpoonup> poll_timer"
  next_timer :: nat
  sent :: "(nat \<times> response) list"

definition lp_init :: lp_state where
  "lp_init = \<lparr>heap = (\<lambda>_. \<lparr>job_id = '''', status = Pending, progress = 0, result = None, lastUpdated = 0\<rparr>),
     next_addr = 0, jobs = Map.empty, waitingClients = [], timers = Map.empty,
     next_timer = 0, sent = []\<rparr>"

text \<open>\<open>jobs[jobId]\<close>, with \<open>None\<close> for \<open>undefined\<close>.\<close>

definition lookup_job :: "lp_state \<Rightarrow> string \<Rightarrow> job_ref option" where
  "lookup_job s j =
     (case get_property (jobs s) j of
        Own a \<Rightarrow> Some (JobAt a)
      | Inherited \<Rightarrow> Some Builtin
      | Undefined \<Rightarrow> None)"

text \<open>\<open>job.status\<close>, with \<open>None\<close> for \<open>undefined\<close>.\<close>

fun status_of :: "lp_state \<Rightarrow> job_ref \<Rightarrow> string option" where
  "status_of s (JobAt a) = Some (status_str (status (heap s a)))"
| "status_of s Builtin = None"

fun immediate_body :: "lp_state \<Rightarrow> string \<Rightarrow> job_ref \<Rightarrow> response" where
  "immediate_body s j (JobAt a) =
     Immediate j (status (heap s a)) (progress (heap s a)) (result (heap s a)) (lastUpdated (heap s a))"
| "immediate_body s j Builtin = ImmediateBare j"

fun timeout_body :: "lp_state \<Rightarrow> string \<Rightarrow> job_ref \<Rightarrow> response" where
  "timeout_body s j (JobAt a) = TimedOut j (status (heap s a)) (progress (heap s a))"
| "timeout_body s j Builtin = TimedOutBare j"

fun changed_body :: "lp_state \<Rightarrow> string \<Rightarrow> job_ref \<Rightarrow> response" where
  "changed_body s j (JobAt a) =
     StatusChanged j (status (heap s a)) (progress (heap s a)) (result (heap s a)) (lastUpdated (heap s a))"
| "changed_body s j Builtin = StatusChangedBare j"

text \<open>
  \<open>POST /create-job\<close>. \<open>j\<close> is the generated id (\<open>job_<Date.now()>_<random>\<close>),
  \<open>now\<close> the clock, \<open>r\<close> the response object.
\<close>

definition create_job :: "string \<Rightarrow> int \<Rightarrow> nat \<Rightarrow> lp_state \<Rightarrow> lp_state" where
  "create_job j now r s =
     (let a = next_addr s in
      s\<lparr>heap := (heap s)(a := \<lparr>job_id = j, status = Pending, progress = 0,
                                 result = None, lastUpdated = now\<rparr>),
        next_addr := Suc a,
        jobs := (jobs s)(j \<mapsto> a),
        sent := sent s @ [(r, JobCreated j)]\<rparr>)"

text \<open>\<open>hasJobStatusChanged(job, lastKnownStatus)\<close> for the job \<open>ref\<close> refers to.\<close>

definition hasJobStatusChanged :: "lp_state \<Rightarrow> job_ref \<Rightarrow> string \<Rightarrow> bool" where
  "hasJobStatusChanged s ref lastKnown = (lastKnown \<noteq> '''' \<and> status_of s ref \<noteq> Some lastKnown)"

definition clearTimeout :: "nat \<Rightarrow> lp_state \<Rightarrow> lp_state" where
  "clearTimeout t s = s\<lparr>timers := (timers s)(t := None)\<rparr>"

text \<open>\<open>res.json(body)\<close> on a held response \<open>r\<close>.\<close>

definition answered :: "lp_state \<Rightarrow> nat \<Rightarrow> bool" where
  "answered s r = (r \<in> fst ` set (sent s))"

definition res_json :: "nat \<Rightarrow> response \<Rightarrow> lp_state \<Rightarrow> lp_error + lp_state" where
  "res_json r body s =
     (if answered s r then Inl HeadersSent else Inr (s\<lparr>sent := sent s @ [(r, body)]\<rparr>))"

text \<open>
  \<open>removeWaitingClient\<close>: the loop runs \<open>i\<close> from the last index down to 0 and stops at
  the first entry whose \<open>jobId\<close> matches. \<open>removeWaitingClient_from n\<close> is the loop with
  \<open>i = n - 1\<close> still to visit.
\<close>

fun removeWaitingClient_from :: "nat \<Rightarrow> string \<Rightarrow> lp_state \<Rightarrow> lp_state" where
  "removeWaitingClient_from 0 j s = s"
| "removeWaitingClient_from (Suc i) j s =
     (if jobId (waitingClients s ! i) = j
      then (clearTimeout (timeout (waitingClients s ! i)) s)
             \<lparr>waitingClients := splice1 i (waitingClients s)\<rparr>
      else removeWaitingClient_from i j s)"

definition removeWaitingClient :: "string \<Rightarrow> lp_state \<Rightarrow> lp_state" where
  "removeWaitingClient j s = removeWaitingClient_from (length (waitingClients s)) j s"

text \<open>
  The callback of a poll request's \<open>setTimeout\<close>, run when timer \<open>t\<close> fires. A timer that
  was cleared, or already fired, is not pending and does nothing.
\<close>

definition poll_timeout :: "nat \<Rightarrow> lp_state \<Rightarrow> lp_error + lp_state" where
  "poll_timeout t s =
     (case timers s t of
        None \<Rightarrow> Inr s
      | Some c \<Rightarrow>
          (let s1 = removeWaitingClient (tm_jobId c) (s\<lparr>timers := (timers s)(t := None)\<rparr>)
           in res_json (tm_res c) (timeout_body s1 (tm_jobId c) (tm_currentJob c)) s1))"

text \<open>
  \<open>GET /poll-job-status\<close> with the query parameters \<open>jobId\<close> and \<open>lastStatus\<close> on the
  response object \<open>r\<close>.
\<close>

definition poll_job_status :: "string option \<Rightarrow> string option \<Rightarrow> nat \<Rightarrow> lp_state \<Rightarrow> lp_state" where
  "poll_job_status qJobId qLastStatus r s =
     (let lastKnown = or_empty qLastStatus in
      if falsy qJobId then s\<lparr>sent := sent s @ [(r, NotFound)]\<rparr>
      else
        (let j = or_empty qJobId in
         case lookup_job s j of
           None \<Rightarrow> s\<lparr>sent := sent s @ [(r, NotFound)]\<rparr>
         | Some currentJob \<Rightarrow>
             if hasJobStatusChanged s currentJob lastKnown
             then s\<lparr>sent := sent s @ [(r, immediate_body s j currentJob)]\<rparr>
             else
               (let t = next_timer s in
                s\<lparr>timers := (timers s)(t \<mapsto> \<lparr>tm_jobId = j, tm_res = r, tm_currentJob = currentJob\<rparr>),
                  next_timer := Suc t,
                  waitingClients := waitingClients s @
                    [\<lparr>res = r, jobId = j, lastKnownStatus = status_of s currentJob,
                      timeout = t\<rparr>]\<rparr>)))"

text \<open>The stage table of \<open>processJob\<close>: status, progress, delay.\<close>

definition stages :: "(job_status \<times> nat \<times> nat) list" where
  "stages =
     [(Processing, 10, 5000), (Processing, 20, 5000), (Processing, 30, 5000),
      (Processing, 40, 5000), (Processing, 50, 5000), (Processing, 60, 5000),
      (Processing, 70, 5000), (Processing, 80, 5000), (Processing, 90, 5000),
      (Completed, 100, 5000)]"

text \<open>
  The second loop of \<open>notifyWaitingClients\<close>: \<open>i\<close> runs from the last index down to 0 and
  every matching entry is spliced out.
\<close>

fun notify_splice :: "nat \<Rightarrow> string \<Rightarrow> waiting_client list \<Rightarrow> waiting_client list" where
  "notify_splice 0 j ws = ws"
| "notify_splice (Suc i) j ws =
     notify_splice i j (if jobId (ws ! i) = j then splice1 i ws else ws)"

text \<open>
  The body of the \<open>forEach\<close>: clear the client's timer, answer its held request with the
  body built from \<open>job\<close>.
\<close>

definition notify_client :: "response \<Rightarrow> waiting_client \<Rightarrow> lp_state \<Rightarrow> lp_error + lp_state" where
  "notify_client body c s = res_json (res c) body (clearTimeout (timeout c) s)"

text \<open>The \<open>forEach\<close> over \<open>clientsForThisJob\<close>; an exception of the body leaves it.\<close>

fun notify_each :: "response \<Rightarrow> waiting_client list \<Rightarrow> lp_state \<Rightarrow> lp_error + lp_state" where
  "notify_each body [] s = Inr s"
| "notify_each body (c # cs) s =
     (case notify_client body c s of
        Inl e \<Rightarrow> Inl e
      | Inr s' \<Rightarrow> notify_each body cs s')"

text \<open>
  \<open>notifyWaitingClients\<close>. When \<open>jobs[jobId]\<close> is undefined, the first client's
  \<open>job.status\<close> raises a TypeError; with no client to answer nothing reads it.
\<close>

definition notifyWaitingClients :: "string \<Rightarrow> lp_state \<Rightarrow> lp_error + lp_state" where
  "notifyWaitingClients j s =
     (let clientsForThisJob = filter (\<lambda>c. jobId c = j) (waitingClients s) in
      case lookup_job s j of
        None \<Rightarrow>
          (if clientsForThisJob = []
           then Inr (s\<lparr>waitingClients :=
                        notify_splice (length (waitingClients s)) j (waitingClients s)\<rparr>)
           else Inl TypeError)
      | Some jb \<Rightarrow>
          (case notify_each (changed_body s j jb) clientsForThisJob s of
             Inl e \<Rightarrow> Inl e
           | Inr s1 \<Rightarrow>
               Inr (s1\<lparr>waitingClients :=
                         notify_splice (length (waitingClients s1)) j (waitingClients s1)\<rparr>)))"

text \<open>
  \<open>processJob\<close> reads \<open>jobs[jobId]\<close> once and returns early when it is undefined;
  otherwise its closure \<open>nextStage\<close> keeps what it read. Its one caller is \<open>create-job\<close>,
  with the id it has just stored, so what \<open>nextStage\<close> keeps is a job object.
\<close>

definition processJob :: "string \<Rightarrow> lp_state \<Rightarrow> job_ref option" where
  "processJob j s = lookup_job s j"

text \<open>
  One run of \<open>nextStage\<close>, the closure of \<open>processJob\<close> for the job object at \<open>a\<close>, with
  its counter \<open>currentStage\<close> at \<open>k\<close>; the timer that calls it again advances the counter.
\<close>

definition nextStage :: "nat \<Rightarrow> string \<Rightarrow> nat \<Rightarrow> int \<Rightarrow> lp_state \<Rightarrow> lp_error + lp_state" where
  "nextStage a j k now s =
     (if k \<ge> length stages then Inr s
      else
        (case stages ! k of
           (st, pr, delay) \<Rightarrow>
             (let jb1 = (heap s a)\<lparr>status := st, progress := pr, lastUpdated := now\<rparr>;
                  jb2 = (if st = Completed
                         then jb1\<lparr>result := Some (''Job '' @ j @ '' completed successfully!'')\<rparr>
                         else jb1)
              in notifyWaitingClients j (s\<lparr>heap := (heap s)(a := jb2)\<rparr>))))"

text \<open>
  The events the server reacts to. The poll route registers no listener for the
  request's \<open>close\<close> event, so a client that disconnects changes nothing.
\<close>

datatype lp_event =
    CreateJob string int nat
  | PollJobStatus "string option" "string option" nat
  | TimeoutFires nat
  | StageRuns nat string nat int
  | ClientCloses nat

fun lp_step :: "lp_event \<Rightarrow> lp_state \<Rightarrow> lp_error + lp_state" where
  "lp_step (CreateJob j now r) s = Inr (create_job j now r s)"
| "lp_step (PollJobStatus qj ql r) s = Inr (poll_job_status qj ql r s)"
| "lp_step (TimeoutFires t) s = poll_timeout t s"
| "lp_step (StageRuns a j k now) s = nextStage a j k now s"
| "lp_step (ClientCloses r) s = Inr s"


section \<open>Short polling server (polling.ts)\<close>

datatype sp_status = SpProcessing | SpCompleted | SpFailed

record sp_job =
  sp_id :: string
  sp_progress :: nat
  sp_status :: sp_status
  createdAt :: int

text \<open>The store \<open>jobs\<close> of the short polling server: the jobs it owns, by id.\<close>

type_synonym sp_jobs = "string \<rightharpoonup> sp_job"

text \<open>
  The bodies of the answers. \<open>StatusBare\<close> is the status body built from an inherited
  object: every property read from it is \<open>undefined\<close> and \<open>isComplete\<close> is false.
\<close>

datatype sp_response =
    Submitted string
  | BadRequest
  | JobNotFound string
  | StatusOk string nat sp_status int bool
  | StatusBare

text \<open>\<open>POST /submit\<close>: \<open>j\<close> is the generated id, \<open>now\<close> the clock.\<close>

definition submit :: "string \<Rightarrow> int \<Rightarrow> sp_jobs \<Rightarrow> sp_jobs \<times> sp_response" where
  "submit j now js =
     (js(j \<mapsto> \<lparr>sp_id = j, sp_progress = 0, sp_status = SpProcessing, createdAt = now\<rparr>),
      Submitted j)"

text \<open>
  \<open>GET /check-status\<close>: 400 for a missing \<open>jobId\<close>, 404 when \<open>jobs[jobId]\<close> is
  \<open>undefined\<close>, else the status body. It reads the store only.
\<close>

definition check_status :: "string option \<Rightarrow> sp_jobs \<Rightarrow> sp_response" where
  "check_status q js =
     (if falsy q then BadRequest
      else
        (case get_property js (or_empty q) of
           Undefined \<Rightarrow> JobNotFound (or_empty q)
         | Own jb \<Rightarrow>
             StatusOk (sp_id jb) (sp_progress jb) (sp_status jb) (createdAt jb)
               (sp_status jb = SpCompleted \<or> sp_status jb = SpFailed)
         | Inherited \<Rightarrow> StatusBare))"

text \<open>
  One run of the interval callback of \<open>startJobProcessing\<close>; the flag says whether it
  called \<open>clearInterval\<close>. For an inherited object the callback would set \<open>progress\<close> on
  that object (to \<open>NaN\<close>, which is not \<open>>= 100\<close>) and leave the store as it is; no interval
  is started for such a key, since \<open>startJobProcessing\<close> is called by \<open>submit\<close> with the
  generated id it has just stored.
\<close>

definition progress_tick :: "string \<Rightarrow> sp_jobs \<Rightarrow> sp_jobs \<times> bool" where
  "progress_tick j js =
     (case get_property js j of
        Undefined \<Rightarrow> (js, True)
      | Inherited \<Rightarrow> (js, False)
      | Own currentJob \<Rightarrow>
          (let p = sp_progress currentJob + 10 in
           if p \<ge> 100
           then (js(j \<mapsto> currentJob\<lparr>sp_progress := 100, sp_status := SpCompleted\<rparr>), True)
           else (js(j \<mapsto> currentJob\<lparr>sp_progress := p\<rparr>), False)))"

text \<open>
  The cleanup interval, over the store's own entries (\<open>Object.entries\<close>).
  \<open>ageInMinutes > 10\<close> with \<open>ageInMinutes = (now - createdAt) / (1000 * 60)\<close> on
  millisecond timestamps is \<open>now - createdAt > 10 * (1000 * 60)\<close>.
\<close>

definition evictable :: "int \<Rightarrow> sp_job \<Rightarrow> bool" where
  "evictable now jb =
     ((sp_status jb = SpCompleted \<or> sp_status jb = SpFailed)
      \<and> now - createdAt jb > 10 * (1000 * 60))"

definition cleanup :: "int \<Rightarrow> sp_jobs \<Rightarrow> sp_jobs" where
  "cleanup now js =
     (\<lambda>k. case js k of
            None \<Rightarrow> None
          | Some jb \<Rightarrow> if evictable now jb then None else Some jb)"

datatype sp_event =
    Submit string int
  | CheckStatus "string option"
  | ProgressTick string
  | Cleanup int

fun sp_step :: "sp_event \<Rightarrow> sp_jobs \<Rightarrow> sp_jobs" where
  "sp_step (Submit j now) js = fst (submit j now js)"
| "sp_step (CheckStatus q) js = js"
| "sp_step (ProgressTick j) js = fst (progress_tick j js)"
| "sp_step (Cleanup now) js = cleanup now js"


section \<open>Server-sent events server\<close>

text \<open>
  The numbers of a stock price and of a job's progress are JavaScript numbers; these
  functions only pass them on, so their type is a parameter \<open>'n\<close>.
\<close>

record 'n StockPrice =
  symbol :: string
  price :: 'n
  change :: 'n
  changePercent :: 'n
  timestamp :: int

datatype jp_status = Running | JpCompleted | JpFailed

record 'n JobProgress =
  jp_jobId :: string
  jp_progress :: 'n
  jp_status :: jp_status
  jp_message :: string

text \<open>
  The objects sent as event data: the welcome record (message, client id, timestamp),
  a stock price, a job's progress.
\<close>

datatype 'n payload =
    Welcome string string string
  | Stock "'n StockPrice"
  | JobData "'n JobProgress"

datatype 'n sse_data = DString string | DObject "'n payload"

record 'n SSEEvent =
  ev_id :: "string option"
  ev_type :: "string option"
  ev_data :: "'n sse_data"

text \<open>
  \<open>connectedClients\<close>, \<open>stockPrices\<close> and \<open>jobProgresses\<close> are \<open>Map\<close>s, kept in
  insertion order. A response object is named by a number; \<open>writableEnded\<close> is its flag,
  \<open>write_error\<close> says whether \<open>res.write\<close> on it throws and with which message, \<open>heads\<close>
  lists the responses \<open>writeHead\<close> was called on, and \<open>wire\<close> is every chunk written,
  in order, with the response it was written to.
\<close>

record 'n sse_state =
  connectedClients :: "(string \<times> nat) list"
  stockPrices :: "(string \<times> 'n StockPrice) list"
  jobProgresses :: "(string \<times> 'n JobProgress) list"
  writableEnded :: "nat \<Rightarrow> bool"
  write_error :: "nat \<Rightarrow> string option"
  heads :: "nat list"
  wire :: "(nat \<times> string) list"

text \<open>\<open>Map.set\<close> keeps the position of a key that is present and appends a new one.\<close>

fun map_set :: "'k \<Rightarrow> 'v \<Rightarrow> ('k \<times> 'v) list \<Rightarrow> ('k \<times> 'v) list" where
  "map_set k v [] = [(k, v)]"
| "map_set k v (kv # m) = (if fst kv = k then (k, v) # m else kv # map_set k v m)"

definition map_delete :: "'k \<Rightarrow> ('k \<times> 'v) list \<Rightarrow> ('k \<times> 'v) list" where
  "map_delete k m = filter (\<lambda>kv. fst kv \<noteq> k) m"

definition res_write :: "nat \<Rightarrow> string \<Rightarrow> 'n sse_state \<Rightarrow> error + 'n sse_state" where
  "res_write r chunk s =
     (case write_error s r of
        Some msg \<Rightarrow> Inl (Error msg)
      | None \<Rightarrow> Inr (s\<lparr>wire := wire s @ [(r, chunk)]\<rparr>))"

text \<open>\<open>if (event.id)\<close>: a field that is present and not the empty string is written.\<close>

definition write_field :: "string \<Rightarrow> string option \<Rightarrow> nat \<Rightarrow> 'n sse_state \<Rightarrow> error + 'n sse_state" where
  "write_field label f r s =
     (if falsy f then Inr s else res_write r (label @ or_empty f @ ''\<newline>'') s)"

text \<open>
  \<open>sendSSEEvent\<close>, with \<open>JSON.stringify\<close> on the payload objects as the parameter
  \<open>stringify\<close>. A response whose \<open>write\<close> throws does so at the first write of the
  \<open>try\<close> block, so the \<open>catch\<close> block starts from the state the call began with; its own
  write is outside any handler.
\<close>

definition sendSSEEvent ::
  "('n payload \<Rightarrow> string) \<Rightarrow> nat \<Rightarrow> 'n SSEEvent \<Rightarrow> 'n sse_state \<Rightarrow> error + 'n sse_state" where
  \<open>sendSSEEvent stringify r event s =
     (let attempt =
        (case write_field ''id: '' (ev_id event) r s of
           Inl e \<Rightarrow> Inl e
         | Inr s1 \<Rightarrow>
             (case write_field ''event: '' (ev_type event) r s1 of
                Inl e \<Rightarrow> Inl e
              | Inr s2 \<Rightarrow>
                  (let data = (case ev_data event of DString x \<Rightarrow> x | DObject ob \<Rightarrow> stringify ob)
                   in res_write r (''data: '' @ data @ ''\<newline>\<newline>'') s2)))
      in case attempt of
           Inr s' \<Rightarrow> Inr s'
         | Inl (Error msg) \<Rightarrow>
             res_write r (''data: {"error": "Failed to send event: '' @ msg @ ''"}\<newline>\<newline>'') s)\<close>

text \<open>
  The body of the \<open>forEach\<close> of \<open>broadcastToAllClients\<close> for the entry
  \<open>(clientId, clientRes)\<close>: an ended response, and one whose send throws, is deleted.
\<close>

definition broadcast_one ::
  "('n payload \<Rightarrow> string) \<Rightarrow> 'n SSEEvent \<Rightarrow> string \<times> nat \<Rightarrow> 'n sse_state \<Rightarrow> 'n sse_state" where
  "broadcast_one stringify event entry s =
     (if \<not> writableEnded s (snd entry)
      then
        (case sendSSEEvent stringify (snd entry) event s of
           Inr s' \<Rightarrow> s'
         | Inl e \<Rightarrow> s\<lparr>connectedClients := map_delete (fst entry) (connectedClients s)\<rparr>)
      else s\<lparr>connectedClients := map_delete (fst entry) (connectedClients s)\<rparr>)"

text \<open>
  \<open>broadcastToAllClients\<close>. The callback deletes at most the entry it is visiting, so
  the \<open>forEach\<close> visits the entries the map had when it started.
\<close>

definition broadcastToAllClients ::
  "('n payload \<Rightarrow> string) \<Rightarrow> 'n SSEEvent \<Rightarrow> 'n sse_state \<Rightarrow> 'n sse_state" where
  "broadcastToAllClients stringify event s =
     fold (broadcast_one stringify event) (connectedClients s) s"

text \<open>Sending a list of events in turn; the first exception ends it.\<close>

fun send_each ::
  "('n payload \<Rightarrow> string) \<Rightarrow> nat \<Rightarrow> 'n SSEEvent list \<Rightarrow> 'n sse_state \<Rightarrow> error + 'n sse_state" where
  "send_each stringify r [] s = Inr s"
| "send_each stringify r (e # es) s =
     (case sendSSEEvent stringify r e s of
        Inl x \<Rightarrow> Inl x
      | Inr s' \<Rightarrow> send_each stringify r es s')"

definition stock_event :: "nat \<Rightarrow> 'n StockPrice \<Rightarrow> 'n SSEEvent" where
  "stock_event now stock =
     \<lparr>ev_id = Some (''stock_'' @ symbol stock @ ''_'' @ num_str now),
      ev_type = Some ''stock_price'', ev_data = DObject (Stock stock)\<rparr>"

definition job_event :: "nat \<Rightarrow> 'n JobProgress \<Rightarrow> 'n SSEEvent" where
  "job_event now jp =
     \<lparr>ev_id = Some (''job_'' @ jp_jobId jp @ ''_'' @ num_str now),
      ev_type = Some ''job_progress'', ev_data = DObject (JobData jp)\<rparr>"

text \<open>
  \<open>sendCurrentStockPrices\<close> and \<open>sendCurrentJobs\<close> call \<open>Date.now()\<close> once for every
  entry; \<open>clock i\<close> is what the call for the entry at position \<open>i\<close> returns.
\<close>

definition sendCurrentStockPrices ::
  "('n payload \<Rightarrow> string) \<Rightarrow> (nat \<Rightarrow> nat) \<Rightarrow> nat \<Rightarrow> 'n sse_state \<Rightarrow> error + 'n sse_state" where
  "sendCurrentStockPrices stringify clock r s =
     send_each stringify r
       (map (\<lambda>ikv. stock_event (clock (fst ikv)) (snd (snd ikv)))
          (zip [0..<length (stockPrices s)] (stockPrices s))) s"

definition sendCurrentJobs ::
  "('n payload \<Rightarrow> string) \<Rightarrow> (nat \<Rightarrow> nat) \<Rightarrow> nat \<Rightarrow> 'n sse_state \<Rightarrow> error + 'n sse_state" where
  "sendCurrentJobs stringify clock r s =
     send_each stringify r
       (map (\<lambda>ikv. job_event (clock (fst ikv)) (snd (snd ikv)))
          (zip [0..<length (jobProgresses s)] (jobProgresses s))) s"

definition welcomeEvent :: "string \<Rightarrow> string \<Rightarrow> 'n SSEEvent" where
  "welcomeEvent clientId isoTime =
     \<lparr>ev_id = Some clientId, ev_type = Some ''connection'',
      ev_data = DObject (Welcome ''Connected to SSE stream successfully!'' clientId isoTime)\<rparr>"

text \<open>
  \<open>GET /events\<close> on the response object \<open>r\<close>: \<open>clientId\<close> is the generated id, \<open>isoTime\<close>
  the timestamp string, \<open>clock k\<close> the value of the \<open>k\<close>-th call of \<open>Date.now()\<close> while the
  current data is sent (the stocks first, then the jobs). An exception leaves the handler
  at once.
\<close>

definition events ::
  "('n payload \<Rightarrow> string) \<Rightarrow> string \<Rightarrow> string \<Rightarrow> (nat \<Rightarrow> nat) \<Rightarrow> nat \<Rightarrow> 'n sse_state
     \<Rightarrow> error + 'n sse_state" where
  "events stringify clientId isoTime clock r s =
     (case sendSSEEvent stringify r (welcomeEvent clientId isoTime) (s\<lparr>heads := heads s @ [r]\<rparr>) of
        Inl e \<Rightarrow> Inl e
      | Inr s1 \<Rightarrow>
          (case sendCurrentStockPrices stringify clock r
                  (s1\<lparr>connectedClients := map_set clientId r (connectedClients s1)\<rparr>) of
             Inl e \<Rightarrow> Inl e
           | Inr s2 \<Rightarrow>
               sendCurrentJobs stringify (\<lambda>i. clock (length (stockPrices s2) + i)) r s2))"

text \<open>The first \<open>close\<close> listener of the request of client \<open>clientId\<close>.\<close>

definition sse_close :: "string \<Rightarrow> 'n sse_state \<Rightarrow> 'n sse_state" where
  "sse_close clientId s = s\<lparr>connectedClients := map_delete clientId (connectedClients s)\<rparr>"

text \<open>One run of the heartbeat interval of a response; the flag says whether it cleared itself.\<close>

definition heartbeat :: "nat \<Rightarrow> 'n sse_state \<Rightarrow> error + 'n sse_state \<times> bool" where
  "heartbeat r s =
     (if writableEnded s r then Inr (s, True)
      else
        (case res_write r ('': heartbeat\<newline>\<newline>'') s of
           Inl e \<Rightarrow> Inl e
         | Inr s' \<Rightarrow> Inr (s', False)))"


section \<open>WebSocket push server (push-server.ts)\<close>

text \<open>
  A connection object is named by a number. \<open>connected\<close> is the flag the websocket
  library keeps on it, \<open>remotePort\<close> its socket's port, \<open>outbox\<close> every call of
  \<open>conn.send\<close> in order.
\<close>

record push_state =
  connections :: "nat list"
  connected :: "nat \<Rightarrow> bool"
  remotePort :: "nat \<Rightarrow> nat"
  next_conn :: nat
  outbox :: "(nat \<times> string) list"

definition allowedOrigins :: "string list" where
  "allowedOrigins =
     [''http://localhost:8080'', ''http://127.0.0.1:8080'', ''https://be.ngockhoi96.dev'', ''null'']"

definition originIsAllowed :: "string option \<Rightarrow> bool" where
  "originIsAllowed origin =
     ((case origin of None \<Rightarrow> False | Some x \<Rightarrow> x \<in> set allowedOrigins) \<or> falsy origin)"

definition conn_send :: "nat \<Rightarrow> string \<Rightarrow> push_state \<Rightarrow> push_state" where
  "conn_send c msg s = s\<lparr>outbox := outbox s @ [(c, msg)]\<rparr>"

text \<open>\<open>connections.forEach\<close> with a guard on the connection and a fixed text.\<close>

definition send_where :: "(nat \<Rightarrow> bool) \<Rightarrow> string \<Rightarrow> push_state \<Rightarrow> push_state" where
  "send_where guard msg s =
     fold (\<lambda>conn st. if guard conn then conn_send conn msg st else st) (connections s) s"

text \<open>
  \<open>wsServer.on('request')\<close> for a request with the given origin from the given port.
  A request that is not allowed is rejected and changes nothing; \<open>req.accept\<close> returns a
  new, open connection.
\<close>

definition on_request :: "string option \<Rightarrow> nat \<Rightarrow> push_state \<Rightarrow> push_state" where
  "on_request origin port s =
     (if \<not> originIsAllowed origin then s
      else
        (let connection = next_conn s;
             s1 = s\<lparr>next_conn := Suc connection,
                    connected := (connected s)(connection := True),
                    remotePort := (remotePort s)(connection := port),
                    connections := connections s @ [connection]\<rparr>;
             s2 = send_where (\<lambda>conn. connected s1 conn \<and> conn \<noteq> connection)
                    (''User'' @ num_str port @ '' has joined the chat'') s1
         in conn_send connection
              (''Welcome! You are User'' @ num_str port @ ''. There are ''
                 @ num_str (length (connections s2)) @ '' users online.'') s2))"

datatype ws_message = Utf8 string | Binary

text \<open>The \<open>message\<close> listener of connection \<open>connection\<close>.\<close>

definition on_message :: "nat \<Rightarrow> ws_message \<Rightarrow> push_state \<Rightarrow> push_state" where
  "on_message connection msg s =
     (case msg of
        Utf8 message \<Rightarrow>
          send_where (connected s)
            (''User'' @ num_str (remotePort s connection) @ '' says: '' @ message) s
      | Binary \<Rightarrow> s)"

text \<open>The \<open>close\<close> listener of connection \<open>connection\<close>.\<close>

definition on_close :: "nat \<Rightarrow> push_state \<Rightarrow> push_state" where
  "on_close connection s =
     (let s1 = (case indexOf connection (connections s) of
                  None \<Rightarrow> s
                | Some index \<Rightarrow> s\<lparr>connections := splice1 index (connections s)\<rparr>)
      in send_where (connected s1)
           (''User'' @ num_str (remotePort s1 connection) @ '' has left the chat'') s1)"

text \<open>
  The library clears \<open>connected\<close> when a connection starts closing, before the \<open>close\<close>
  event is delivered.
\<close>

datatype push_event =
    Request "string option" nat
  | Message nat ws_message
  | Closing nat
  | Close nat

fun push_step :: "push_event \<Rightarrow> push_state \<Rightarrow> push_state" where
  "push_step (Request origin port) s = on_request origin port s"
| "push_step (Message c msg) s = on_message c msg s"
| "push_step (Closing c) s = s\<lparr>connected := (connected s)(c := False)\<rparr>"
| "push_step (Close c) s = on_close c s"

definition push_init :: push_state where
  "push_init = \<lparr>connections = [], connected = (\<lambda>_. False), remotePort = (\<lambda>_. 0),
     next_conn = 0, outbox = []\<rparr>"

text \<open>Every stored connection was handed out by \<open>req.accept\<close>, once.\<close>

definition push_inv :: "push_state \<Rightarrow> bool" where
  "push_inv s = (distinct (connections s) \<and> (\<forall>c \<in> set (connections s). c < next_conn s))"

section \<open>Traces and sample states\<close>

text \<open>Running a list of events on the long polling server; an uncaught exception ends the run.\<close>

fun lp_run :: "lp_event list \<Rightarrow> lp_state \<Rightarrow> lp_error + lp_state" where
  "lp_run [] s = Inr s"
| "lp_run (e # es) s = (case lp_step e s of Inl x \<Rightarrow> Inl x | Inr s' \<Rightarrow> lp_run es s')"


text \<open>
  What \<open>sendSSEEvent\<close> writes for an event when no write throws: the \<open>id\<close> line and the
  \<open>event\<close> line when the field is set, then the \<open>data\<close> line.
\<close>

definition event_chunks :: "('n payload \<Rightarrow> string) \<Rightarrow> 'n SSEEvent \<Rightarrow> string list" where
  "event_chunks stringify event =
     (if falsy (ev_id event) then [] else [''id: '' @ or_empty (ev_id event) @ ''\<newline>''])
     @ (if falsy (ev_type event) then [] else [''event: '' @ or_empty (ev_type event) @ ''\<newline>''])
     @ [''data: '' @ (case ev_data event of DString x \<Rightarrow> x | DObject ob \<Rightarrow> stringify ob)
          @ ''\<newline>\<newline>'']"

text \<open>
  A state of the SSE server with three clients: the response of \<open>client_a\<close> has ended,
  a write to the response of \<open>client_b\<close> throws, the response of \<open>client_c\<close> is open.
\<close>

definition sse_example :: "nat sse_state" where
  "sse_example =
     \<lparr>connectedClients = [(''client_a'', 1), (''client_b'', 2), (''client_c'', 3)],
      stockPrices = [(''AAPL'', \<lparr>symbol = ''AAPL'', price = 150, change = 0, changePercent = 0,
                                  timestamp = 0\<rparr>)],
      jobProgresses = [(''j1'', \<lparr>jp_jobId = ''j1'', jp_progress = 0, jp_status = Running,
                                  jp_message = ''Job started...''\<rparr>)],
      writableEnded = (\<lambda>r. r = 1),
      write_error = (\<lambda>r. if r = 2 then Some ''EPIPE'' else None),
      heads = [1, 2, 3], wire = []\<rparr>"

text \<open>The push server after two clients have connected, from ports 5000 and 5001.\<close>

definition push_example :: push_state where
  "push_example = fold push_step [Request None 5000, Request None 5001] push_init"


section \<open>Properties of the long polling server\<close>

lemmas lp_defs = create_job_def poll_job_status_def poll_timeout_def nextStage_def stages_def
  notifyWaitingClients_def notify_client_def res_json_def answered_def
  removeWaitingClient_def clearTimeout_def
  hasJobStatusChanged_def lookup_job_def get_property_def object_prototype_keys_def
  falsy_def or_empty_def splice1_def lp_init_def Let_def

lemma removeWaitingClient_from_timers:
  "timers s t = None \<Longrightarrow> timers (removeWaitingClient_from n j s) t = None"
  by (induction n) (simp_all add: clearTimeout_def)

lemma removeWaitingClient_timers:
  "timers s t = None \<Longrightarrow> timers (removeWaitingClient j s) t = None"
  by (simp add: removeWaitingClient_def removeWaitingClient_from_timers)

lemma removeWaitingClient_from_frame:
  "sent (removeWaitingClient_from n j s) = sent s \<and> heap (removeWaitingClient_from n j s) = heap s
   \<and> jobs (removeWaitingClient_from n j s) = jobs s"
  by (induction n) (simp_all add: clearTimeout_def)

lemma removeWaitingClient_frame:
  "sent (removeWaitingClient j s) = sent s \<and> heap (removeWaitingClient j s) = heap s
   \<and> jobs (removeWaitingClient j s) = jobs s"
  by (simp add: removeWaitingClient_def removeWaitingClient_from_frame)






lemma notify_each_frame:
  "notify_each body cs s = Inr s' \<Longrightarrow> jobs s' = jobs s \<and> heap s' = heap s"
proof (induction cs arbitrary: s)
  case Nil
  then show ?case by simp
next
  case (Cons c cs)
  then show ?case
    by (auto simp: notify_client_def res_json_def clearTimeout_def split: sum.splits if_splits)
qed

lemma notifyWaitingClients_jobs:
  "notifyWaitingClients j s = Inr s' \<Longrightarrow> jobs s' = jobs s \<and> heap s' = heap s"
  by (auto simp: notifyWaitingClients_def Let_def split: option.splits if_splits sum.splits
      dest: notify_each_frame)

lemma lp_step_jobs:
  "lp_step e s = Inr s' \<Longrightarrow> dom (jobs s) \<subseteq> dom (jobs s')"
proof (cases e)
  case (CreateJob j now r)
  then show "lp_step e s = Inr s' \<Longrightarrow> ?thesis" by (auto simp: create_job_def Let_def)
next
  case (PollJobStatus qj ql r)
  then show "lp_step e s = Inr s' \<Longrightarrow> ?thesis"
    by (auto simp: poll_job_status_def Let_def split: option.splits if_splits)
next
  case (TimeoutFires t)
  then show "lp_step e s = Inr s' \<Longrightarrow> ?thesis"
    by (auto simp: poll_timeout_def res_json_def Let_def removeWaitingClient_frame
        split: option.splits if_splits)
next
  case (StageRuns a j k now)
  then show "lp_step e s = Inr s' \<Longrightarrow> ?thesis"
    by (auto simp: nextStage_def Let_def split: if_splits prod.splits dest!: notifyWaitingClients_jobs)
next
  case (ClientCloses r)
  then show "lp_step e s = Inr s' \<Longrightarrow> ?thesis" by auto
qed

text \<open>
  The progress of the stage table grows strictly: run in order, every stage moves the
  job's state past what it was before.
\<close>

lemma stages_progress_increasing:
  "sorted_wrt (<) (map (\<lambda>x. fst (snd x)) stages)"
  by (simp add: stages_def)


text \<open>
  When a pending timer of a request held for a job fires and the response is still
  unanswered, the response gets the timeout body with the job's status and progress of
  that moment.
\<close>

lemma timeout_outcome:
  assumes "timers s t = Some c" and "tm_currentJob c = JobAt a" and "\<not> answered s (tm_res c)"
  shows "\<exists>s'. poll_timeout t s = Inr s'
     \<and> sent s' = sent s @ [(tm_res c, TimedOut (tm_jobId c) (status (heap s a)) (progress (heap s a)))]
     \<and> heap s' = heap s \<and> jobs s' = jobs s \<and> timers s' t = None"
  using assms
  by (simp add: poll_timeout_def res_json_def answered_def Let_def removeWaitingClient_frame
      removeWaitingClient_timers)

text \<open>A run of two lists of events is the run of the first followed by the run of the second.\<close>

lemma lp_run_append:
  "lp_run (es @ es') s = (case lp_run es s of Inl x \<Rightarrow> Inl x | Inr s' \<Rightarrow> lp_run es' s')"
  by (induction es arbitrary: s) (simp_all split: sum.splits)

text \<open>
  A poll whose \<open>lastStatus\<close> is absent, empty or equal to the job's status is parked: a
  timer is armed for it and it joins \<open>waitingClients\<close> with the job's status as its
  \<open>lastKnownStatus\<close>.
\<close>

lemma poll_parks:
  assumes "j \<noteq> ''''" and "jobs s j = Some a"
    and "or_empty ql = '''' \<or> or_empty ql = status_str (status (heap s a))"
  shows "poll_job_status (Some j) ql r s =
     s\<lparr>timers := (timers s)(next_timer s \<mapsto> \<lparr>tm_jobId = j, tm_res = r, tm_currentJob = JobAt a\<rparr>),
       next_timer := Suc (next_timer s),
       waitingClients := waitingClients s @
         [\<lparr>res = r, jobId = j, lastKnownStatus = Some (status_str (status (heap s a))),
           timeout = next_timer s\<rparr>]\<rparr>"
  using assms
  by (auto simp: poll_job_status_def lookup_job_def get_property_def falsy_def or_empty_def
      hasJobStatusChanged_def Let_def)

text \<open>
  A job id that the store does not own and that is no name of \<open>Object.prototype\<close> is
  answered with the 404 body, by both servers, and nothing else changes; so is a poll
  without a job id.
\<close>

lemma unknown_key_not_found:
  "(falsy qj \<or> get_property (jobs s) (or_empty qj) = Undefined \<longrightarrow>
      poll_job_status qj ql r s = s\<lparr>sent := sent s @ [(r, NotFound)]\<rparr>)
   \<and> (\<not> falsy qj \<and> get_property js (or_empty qj) = Undefined \<longrightarrow>
      check_status qj js = JobNotFound (or_empty qj))"
  by (simp add: poll_job_status_def check_status_def lookup_job_def Let_def)


section \<open>Properties of the SSE server\<close>

lemma sendSSEEvent_ok:
  "write_error s r = None \<Longrightarrow>
   sendSSEEvent f r ev s = Inr (s\<lparr>wire := wire s @ map (Pair r) (event_chunks f ev)\<rparr>)"
  by (simp add: sendSSEEvent_def write_field_def res_write_def event_chunks_def Let_def)

lemma sendSSEEvent_throws:
  "write_error s r = Some m \<Longrightarrow> sendSSEEvent f r ev s = Inl (Error m)"
  by (simp add: sendSSEEvent_def write_field_def res_write_def Let_def)

lemma send_each_ok:
  "write_error s r = None \<Longrightarrow>
   send_each f r es s = Inr (s\<lparr>wire := wire s @ map (Pair r) (concat (map (event_chunks f) es))\<rparr>)"
proof (induction es arbitrary: s)
  case Nil
  then show ?case by simp
next
  case (Cons e es)
  let ?s1 = "s\<lparr>wire := wire s @ map (Pair r) (event_chunks f e)\<rparr>"
  have "write_error ?s1 r = None" using Cons.prems by simp
  from Cons.IH [OF this] Cons.prems show ?case
    by (simp add: sendSSEEvent_ok)
qed

lemma broadcast_one_alive:
  "\<not> writableEnded s (snd kv) \<Longrightarrow> write_error s (snd kv) = None \<Longrightarrow>
   broadcast_one f ev kv s = s\<lparr>wire := wire s @ map (Pair (snd kv)) (event_chunks f ev)\<rparr>"
  by (simp add: broadcast_one_def sendSSEEvent_ok)

lemma broadcast_one_dead:
  "writableEnded s (snd kv) \<or> write_error s (snd kv) \<noteq> None \<Longrightarrow>
   broadcast_one f ev kv s = s\<lparr>connectedClients := map_delete (fst kv) (connectedClients s)\<rparr>"
  by (auto simp: broadcast_one_def sendSSEEvent_throws)

text \<open>
  The \<open>forEach\<close> of a broadcast changes neither \<open>writableEnded\<close> nor \<open>write_error\<close>, so
  which entries are live (\<open>P\<close>) is fixed while it runs.
\<close>

lemma fold_broadcast_one:
  assumes "writableEnded s = we" and "write_error s = wr"
    and "P = (\<lambda>kv. \<not> we (snd kv) \<and> wr (snd kv) = None)"
  shows "fold (broadcast_one f ev) xs s =
     s\<lparr>connectedClients :=
          fold (\<lambda>kv m. if P kv then m else map_delete (fst kv) m) xs (connectedClients s),
       wire := wire s @ concat (map (\<lambda>kv. map (Pair (snd kv)) (event_chunks f ev)) (filter P xs))\<rparr>"
  using assms(1,2)
proof (induction xs arbitrary: s)
  case Nil
  then show ?case by simp
next
  case (Cons kv xs)
  show ?case
  proof (cases "P kv")
    case True
    let ?s1 = "s\<lparr>wire := wire s @ map (Pair (snd kv)) (event_chunks f ev)\<rparr>"
    have one: "broadcast_one f ev kv s = ?s1"
      using True Cons.prems assms(3) by (simp add: broadcast_one_alive)
    have "writableEnded ?s1 = we" "write_error ?s1 = wr" using Cons.prems by simp_all
    from Cons.IH [OF this] one True show ?thesis by simp
  next
    case False
    let ?s1 = "s\<lparr>connectedClients := map_delete (fst kv) (connectedClients s)\<rparr>"
    have one: "broadcast_one f ev kv s = ?s1"
      using False Cons.prems assms(3) by (intro broadcast_one_dead) auto
    have "writableEnded ?s1 = we" "write_error ?s1 = wr" using Cons.prems by simp_all
    from Cons.IH [OF this] one False show ?thesis by simp
  qed
qed

lemma fold_map_delete:
  "fold (\<lambda>kv m. if P kv then m else map_delete (fst kv) m) xs m0 =
     filter (\<lambda>kv. fst kv \<notin> fst ` {x \<in> set xs. \<not> P x}) m0"
proof (induction xs arbitrary: m0)
  case Nil
  then show ?case by simp
next
  case (Cons x xs)
  show ?case
  proof (cases "P x")
    case True
    have "{y \<in> set (x # xs). \<not> P y} = {y \<in> set xs. \<not> P y}" using True by auto
    with Cons.IH [of m0] True show ?thesis by simp
  next
    case False
    have "{y \<in> set (x # xs). \<not> P y} = insert x {y \<in> set xs. \<not> P y}" using False by auto
    with Cons.IH [of "map_delete (fst x) m0"] False show ?thesis
      by (auto simp: map_delete_def intro: filter_cong)
  qed
qed

text \<open>The keys of a \<open>Map\<close> are distinct, so deleting the keys of the dead entries keeps the live ones.\<close>

lemma filter_dead_keys:
  assumes "distinct (map fst m)"
  shows "filter (\<lambda>kv. fst kv \<notin> fst ` {x \<in> set m. \<not> P x}) m = filter P m"
proof (rule filter_cong [OF refl])
  fix kv assume kv: "kv \<in> set m"
  show "(fst kv \<notin> fst ` {x \<in> set m. \<not> P x}) = P kv"
  proof
    assume "fst kv \<notin> fst ` {x \<in> set m. \<not> P x}"
    with kv show "P kv" by force
  next
    assume p: "P kv"
    show "fst kv \<notin> fst ` {x \<in> set m. \<not> P x}"
    proof
      assume "fst kv \<in> fst ` {x \<in> set m. \<not> P x}"
      then obtain x where x: "x \<in> set m" "\<not> P x" "fst x = fst kv" by auto
      from assms kv x(1) x(3) have "x = kv"
        by (metis eq_key_imp_eq_value prod.collapse)
      with p x(2) show False by simp
    qed
  qed
qed

lemma broadcast_result:
  assumes "distinct (map fst (connectedClients s))"
    and "P = (\<lambda>kv. \<not> writableEnded s (snd kv) \<and> write_error s (snd kv) = None)"
  shows "broadcastToAllClients f ev s =
     s\<lparr>connectedClients := filter P (connectedClients s),
       wire := wire s @ concat (map (\<lambda>kv. map (Pair (snd kv)) (event_chunks f ev))
                 (filter P (connectedClients s)))\<rparr>"
proof -
  have "fold (\<lambda>kv m. if P kv then m else map_delete (fst kv) m)
          (connectedClients s) (connectedClients s) = filter P (connectedClients s)"
    by (simp only: fold_map_delete filter_dead_keys [OF assms(1)])
  with fold_broadcast_one [OF refl refl assms(2), of f ev "connectedClients s"]
  show ?thesis by (simp add: broadcastToAllClients_def)
qed


section \<open>Properties of the push server\<close>

lemma fold_send:
  "fold (\<lambda>conn st. if g conn then conn_send conn msg st else st) xs s =
     s\<lparr>outbox := outbox s @ map (\<lambda>k. (k, msg)) (filter g xs)\<rparr>"
  by (induction xs arbitrary: s) (simp_all add: conn_send_def)

lemma send_where_eq:
  "send_where g msg s = s\<lparr>outbox := outbox s @ map (\<lambda>k. (k, msg)) (filter g (connections s))\<rparr>"
  by (simp add: send_where_def fold_send)

lemma indexOf_splice1:
  "(case indexOf c xs of None \<Rightarrow> xs | Some i \<Rightarrow> splice1 i xs) = remove1 c xs"
  by (induction xs) (auto simp: splice1_def split: option.splits)

lemma on_close_connections:
  "connections (on_close c s) = remove1 c (connections s)"
proof -
  have "connections (case indexOf c (connections s) of None \<Rightarrow> s
          | Some i \<Rightarrow> s\<lparr>connections := splice1 i (connections s)\<rparr>)
        = (case indexOf c (connections s) of None \<Rightarrow> connections s
          | Some i \<Rightarrow> splice1 i (connections s))"
    by (simp split: option.splits)
  then show ?thesis by (simp add: on_close_def Let_def send_where_eq indexOf_splice1)
qed

lemma on_close_next_conn: "next_conn (on_close c s) = next_conn s"
  by (simp add: on_close_def Let_def send_where_eq split: option.splits)

text \<open>The invariant holds when the server starts and every event keeps it.\<close>

lemma push_inv_init: "push_inv push_init"
  by (simp add: push_inv_def push_init_def)

lemma push_inv_step: "push_inv s \<Longrightarrow> push_inv (push_step e s)"
proof (cases e)
  case (Request origin port)
  then show "push_inv s \<Longrightarrow> ?thesis"
    by (auto simp: push_inv_def on_request_def Let_def send_where_eq conn_send_def less_Suc_eq)
next
  case (Message c msg)
  then show "push_inv s \<Longrightarrow> ?thesis"
    by (auto simp: push_inv_def on_message_def send_where_eq split: ws_message.splits)
next
  case (Closing c)
  then show "push_inv s \<Longrightarrow> ?thesis" by (simp add: push_inv_def)
next
  case (Close c)
  then show "push_inv s \<Longrightarrow> ?thesis"
    by (auto simp: push_inv_def on_close_connections on_close_next_conn dest: notin_set_remove1)
qed

lemma on_request_outbox:
  "originIsAllowed origin \<Longrightarrow>
     outbox (on_request origin port s) =
       outbox s @ map (\<lambda>k. (k, ''User'' @ num_str port @ '' has joined the chat''))
         (filter (\<lambda>k. connected s k \<and> k \<noteq> next_conn s) (connections s))
       @ [(next_conn s, ''Welcome! You are User'' @ num_str port @ ''. There are ''
             @ num_str (Suc (length (connections s))) @ '' users online.'')]"
proof -
  have "filter (\<lambda>conn. ((connected s)(next_conn s := True)) conn \<and> conn \<noteq> next_conn s) (connections s)
        = filter (\<lambda>k. connected s k \<and> k \<noteq> next_conn s) (connections s)"
    by (rule filter_cong) auto
  then show "originIsAllowed origin \<Longrightarrow> ?thesis"
    by (simp add: on_request_def Let_def send_where_eq conn_send_def)
qed

lemma push_example_state:
  "connections push_example = [0, 1] \<and> connected push_example 0 \<and> connected push_example 1
   \<and> remotePort push_example 0 = 5000 \<and> remotePort push_example 1 = 5001
   \<and> next_conn push_example = 2"
  by (simp add: push_example_def on_request_def send_where_def conn_send_def originIsAllowed_def
      falsy_def push_init_def Let_def)

section \<open>The claims\<close>

subsection \<open>C1: a waiter is answered as changed exactly when its job was published\<close>




subsection \<open>C2: every held response is answered exactly once\<close>

text \<open>
  C2 says that each waiter's held response is answered exactly once, whether the publish
  or the timer reaches it first, and that none is dropped. \<open>removeWaitingClient\<close> finds
  its entry by job id, from the end of the list, so the timer of one request removes the
  entry, and clears the timer, of the latest request for the same job. In the run below
  the job completes, two clients poll it with \<open>lastStatus = completed\<close> (responses 1 and
  2, timers 0 and 1), and timer 0 fires. Response 1 gets the timeout answer and its entry
  stays in the list; the entry of response 2 has left the list, its timer is cleared, and
  it has no answer.
\<close>

theorem timeout_removes_other_waiter:
  "map_sum id (\<lambda>s. (sent s, map res (waitingClients s), timers s 0, timers s 1))
     (lp_run [CreateJob ''job_1'' 0 0,
              StageRuns 0 ''job_1'' 0 3000, StageRuns 0 ''job_1'' 1 8000,
              StageRuns 0 ''job_1'' 2 13000, StageRuns 0 ''job_1'' 3 18000,
              StageRuns 0 ''job_1'' 4 23000, StageRuns 0 ''job_1'' 5 28000,
              StageRuns 0 ''job_1'' 6 33000, StageRuns 0 ''job_1'' 7 38000,
              StageRuns 0 ''job_1'' 8 43000, StageRuns 0 ''job_1'' 9 48000,
              PollJobStatus (Some ''job_1'') (Some ''completed'') 1,
              PollJobStatus (Some ''job_1'') (Some ''completed'') 2,
              TimeoutFires 0] lp_init)
   = Inr ([(0, JobCreated ''job_1''), (1, TimedOut ''job_1'' Completed 100)], [1], None, None)"
  by (simp add: lp_defs)


subsection \<open>C3: a stale last-known status is answered at once\<close>

text \<open>
  C3: a poll for an existing job whose caller supplies a last-known status (a non-empty
  \<open>lastStatus\<close>) that differs from the job's current status is answered at once, with
  the job's current state, and nothing else changes: no waiter is parked and no timer is
  armed.
\<close>

theorem poll_stale_immediate:
  assumes "qj = Some j" and "j \<noteq> ''''" and "jobs s j = Some a"
    and "ql = Some l" and "l \<noteq> ''''" and "status_str (status (heap s a)) \<noteq> l"
  shows "poll_job_status qj ql r s =
           s\<lparr>sent := sent s @ [(r, Immediate j (status (heap s a)) (progress (heap s a))
                                   (result (heap s a)) (lastUpdated (heap s a)))]\<rparr>"
  using assms
  by (simp add: poll_job_status_def lookup_job_def get_property_def falsy_def or_empty_def
      hasJobStatusChanged_def Let_def)

theorem poll_stale_immediate_witness:
  "poll_job_status (Some ''job_1'') (Some ''processing'') 1 (create_job ''job_1'' 0 0 lp_init)
   = (create_job ''job_1'' 0 0 lp_init)
       \<lparr>sent := [(0, JobCreated ''job_1''), (1, Immediate ''job_1'' Pending 0 None 0)]\<rparr>"
  using poll_stale_immediate [of "Some ''job_1''" "''job_1''" "create_job ''job_1'' 0 0 lp_init" 0
      "Some ''processing''" "''processing''" 1]
  by (simp add: create_job_def lp_init_def)


subsection \<open>C4: job entries and the store's domain\<close>

text \<open>
  C4 says that no operation ever removes a job entry. The short polling server's cleanup
  interval does: a job that was submitted at time 0 and has completed is in the store, and
  the cleanup run at 600001 ms deletes it.
\<close>

theorem cleanup_deletes_job:
  "fold sp_step (Submit ''job_1'' 0 # replicate 10 (ProgressTick ''job_1'')) Map.empty ''job_1''
     = Some \<lparr>sp_id = ''job_1'', sp_progress = 100, sp_status = SpCompleted, createdAt = 0\<rparr>
   \<and> fold sp_step (Submit ''job_1'' 0 # replicate 10 (ProgressTick ''job_1'') @ [Cleanup 600001])
       Map.empty ''job_1'' = None"
  by (simp add: eval_nat_numeral submit_def progress_tick_def get_property_def cleanup_def
      evictable_def Let_def)

text \<open>
  C4 as amended: the cleanup run of the short polling server deletes exactly the entries
  that are completed or failed and older than ten minutes; every other operation of that
  server, and every operation of the long polling server, keeps every entry of the store.
\<close>

theorem store_domain:
  "(case e of
      Cleanup now \<Rightarrow> dom (sp_step e js) = {k \<in> dom js. \<not> evictable now (the (js k))}
    | _ \<Rightarrow> dom js \<subseteq> dom (sp_step e js))
   \<and> (case lp_step ev s of Inl x \<Rightarrow> True | Inr s' \<Rightarrow> dom (jobs s) \<subseteq> dom (jobs s'))"
proof
  show "case e of
      Cleanup now \<Rightarrow> dom (sp_step e js) = {k \<in> dom js. \<not> evictable now (the (js k))}
    | _ \<Rightarrow> dom js \<subseteq> dom (sp_step e js)"
    by (auto simp: submit_def progress_tick_def cleanup_def Let_def
        split: sp_event.splits option.splits property.splits if_splits)
  show "case lp_step ev s of Inl x \<Rightarrow> True | Inr s' \<Rightarrow> dom (jobs s) \<subseteq> dom (jobs s')"
    using lp_step_jobs [of ev s] by (simp split: sum.splits)
qed


subsection \<open>C5: disconnecting clients\<close>

text \<open>
  C5 says that a client that disconnects while parked is released. The long polling
  server has no listener for a disconnect: after the client of response 1 has gone, its
  entry is still in \<open>waitingClients\<close> and its timer is still pending.
\<close>

theorem disconnect_keeps_waiter:
  "map_sum id (\<lambda>s. (map res (waitingClients s), map_option tm_res (timers s 0)))
     (lp_run [CreateJob ''job_1'' 0 0, PollJobStatus (Some ''job_1'') None 1, ClientCloses 1] lp_init)
   = Inr ([1], Some 1)"
  by (simp add: lp_defs)

text \<open>
  C5 as amended: when a streaming client disconnects, its subscription is removed (the
  SSE server deletes its entry of \<open>connectedClients\<close>, the push server splices its
  connection out of \<open>connections\<close>); a long polling client that disconnects while parked
  is not released: the disconnect has no effect on the server, any run of the server with
  the disconnect in it ends as the run without it does.
\<close>

theorem disconnect_removes_subscription:
  "clientId \<notin> fst ` set (connectedClients (sse_close clientId s))
   \<and> (push_inv ps \<longrightarrow> c \<notin> set (connections (on_close c ps)))
   \<and> lp_run (es @ ClientCloses r # es') ls = lp_run (es @ es') ls"
proof (intro conjI)
  show "clientId \<notin> fst ` set (connectedClients (sse_close clientId s))"
    by (auto simp: sse_close_def map_delete_def)
  show "push_inv ps \<longrightarrow> c \<notin> set (connections (on_close c ps))"
    by (auto simp: push_inv_def on_close_connections)
  show "lp_run (es @ ClientCloses r # es') ls = lp_run (es @ es') ls"
    by (simp add: lp_run_append split: sum.splits)
qed

theorem disconnect_removes_subscription_witness:
  "push_inv push_example \<and> connections push_example = [0, 1]
   \<and> 0 \<notin> set (connections (on_close 0 push_example))
   \<and> ''client_a'' \<notin> fst ` set (connectedClients (sse_close ''client_a'' sse_example))
   \<and> lp_run ([CreateJob ''job_1'' 0 0, PollJobStatus (Some ''job_1'') None 1]
               @ ClientCloses 1 # [TimeoutFires 0]) lp_init
       = lp_run ([CreateJob ''job_1'' 0 0, PollJobStatus (Some ''job_1'') None 1]
               @ [TimeoutFires 0]) lp_init"
proof -
  have i: "push_inv push_example" using push_example_state by (simp add: push_inv_def)
  show ?thesis
    using disconnect_removes_subscription [of "''client_a''" sse_example push_example 0
        "[CreateJob ''job_1'' 0 0, PollJobStatus (Some ''job_1'') None 1]" 1 "[TimeoutFires 0]" lp_init]
      push_example_state i
    by simp
qed


subsection \<open>C6: broadcast and failing subscribers\<close>

text \<open>
  C6 says that a publish removes the subscription of a subscriber it cannot deliver to.
  The push server does not: connection 0 is closing when connection 1 sends a message;
  the message goes to connection 1 only and connection 0 stays in \<open>connections\<close>.
\<close>

theorem closed_connection_stays:
  "(\<lambda>s. (connections s, connected s 0, drop 3 (outbox s)))
     (fold push_step [Request None 5000, Request None 5001, Closing 0, Message 1 (Utf8 ''hi'')]
        push_init)
   = ([0, 1], False, [(1, ''User5001 says: hi'')])"
  by (simp add: on_request_def on_message_def send_where_def conn_send_def originIsAllowed_def
      falsy_def push_init_def Let_def num_str.simps digit_char_def)

text \<open>
  C6 as amended: a broadcast of the SSE server writes the event to every client whose
  response has not ended and whose write does not throw, in the map's order, and deletes
  exactly the other clients; a chat message of the push server is sent to every connection
  that is connected, and the list of connections stays as it is (a closed connection is
  skipped, its \<open>close\<close> listener removes it). In both, a subscriber that cannot be
  reached does not stop the delivery to the others.
\<close>

theorem broadcast_isolation:
  assumes "distinct (map fst (connectedClients s))"
  shows "connectedClients (broadcastToAllClients f ev s) =
           filter (\<lambda>kv. \<not> writableEnded s (snd kv) \<and> write_error s (snd kv) = None)
             (connectedClients s)
         \<and> wire (broadcastToAllClients f ev s) =
           wire s @ concat (map (\<lambda>kv. map (Pair (snd kv)) (event_chunks f ev))
             (filter (\<lambda>kv. \<not> writableEnded s (snd kv) \<and> write_error s (snd kv) = None)
                (connectedClients s)))
         \<and> connections (on_message c (Utf8 m) ps) = connections ps
         \<and> outbox (on_message c (Utf8 m) ps) =
           outbox ps @ map (\<lambda>k. (k, ''User'' @ num_str (remotePort ps c) @ '' says: '' @ m))
             (filter (connected ps) (connections ps))"
  by (simp add: broadcast_result [OF assms refl] on_message_def send_where_eq)

theorem broadcast_isolation_witness:
  "connectedClients (broadcastToAllClients (\<lambda>ob. ''{}'')
       \<lparr>ev_id = None, ev_type = Some ''ping'', ev_data = DString ''x''\<rparr> sse_example)
     = [(''client_c'', 3)]
   \<and> wire (broadcastToAllClients (\<lambda>ob. ''{}'')
       \<lparr>ev_id = None, ev_type = Some ''ping'', ev_data = DString ''x''\<rparr> sse_example)
     = [(3, ''event: ping\<newline>''), (3, ''data: x\<newline>\<newline>'')]
   \<and> outbox (on_message 1 (Utf8 ''hi'') push_example) =
       outbox push_example @ [(0, ''User5001 says: hi''), (1, ''User5001 says: hi'')]"
proof -
  have h: "distinct (map fst (connectedClients sse_example))" by (simp add: sse_example_def)
  show ?thesis
    using broadcast_isolation [OF h, of "\<lambda>ob. ''{}''"
        "\<lparr>ev_id = None, ev_type = Some ''ping'', ev_data = DString ''x''\<rparr>" 1 "''hi''" push_example]
      push_example_state
    by (simp add: sse_example_def event_chunks_def falsy_def or_empty_def num_str.simps
        digit_char_def)
qed


subsection \<open>C7: the timeout outcome\<close>

text \<open>
  C7 says that every parked waiter whose deadline passes with no change of its job is
  resolved with the timeout outcome. The waiter whose entry and timer the timeout of
  another request for the same job has removed is not: in the run below two clients poll
  a completed job (responses 1 and 2, timers 0 and 1) and both deadlines pass. The first
  timeout answers response 1 with the job's state and removes the entry and the timer of
  response 2; at the second deadline nothing is pending, and response 2 is left without
  any answer.
\<close>

theorem cleared_waiter_never_times_out:
  "map_sum id (\<lambda>s. (sent s, map res (waitingClients s), timers s 0, timers s 1))
     (lp_run [CreateJob ''job_1'' 0 0,
              StageRuns 0 ''job_1'' 0 3000, StageRuns 0 ''job_1'' 1 8000,
              StageRuns 0 ''job_1'' 2 13000, StageRuns 0 ''job_1'' 3 18000,
              StageRuns 0 ''job_1'' 4 23000, StageRuns 0 ''job_1'' 5 28000,
              StageRuns 0 ''job_1'' 6 33000, StageRuns 0 ''job_1'' 7 38000,
              StageRuns 0 ''job_1'' 8 43000, StageRuns 0 ''job_1'' 9 48000,
              PollJobStatus (Some ''job_1'') (Some ''completed'') 1,
              PollJobStatus (Some ''job_1'') (Some ''completed'') 2,
              TimeoutFires 0, TimeoutFires 1] lp_init)
   = Inr ([(0, JobCreated ''job_1''), (1, TimedOut ''job_1'' Completed 100)], [1], None, None)"
  by (simp add: lp_defs)


subsection \<open>C8: unknown jobs\<close>

text \<open>
  C8 says that a poll or a status check for a job id with no entry is answered with 404
  and registers no waiter. Both handlers test \<open>!jobs[jobId]\<close> on an object literal, which
  is false for the names the object inherits. For the job id \<open>constructor\<close>, with no job
  in the store: the status check answers with the status body (no 404); the poll with a
  \<open>lastStatus\<close> answers at once with the immediate body; the poll without one parks a
  waiter for that id and arms its timer.
\<close>

theorem inherited_key_not_404:
  "check_status (Some ''constructor'') Map.empty = StatusBare
   \<and> poll_job_status (Some ''constructor'') (Some ''pending'') 1 lp_init
       = lp_init\<lparr>sent := [(1, ImmediateBare ''constructor'')]\<rparr>
   \<and> (\<lambda>s. (sent s, waitingClients s, timers s 0))
        (poll_job_status (Some ''constructor'') None 1 lp_init)
       = ([], [\<lparr>res = 1, jobId = ''constructor'', lastKnownStatus = None, timeout = 0\<rparr>],
          Some \<lparr>tm_jobId = ''constructor'', tm_res = 1, tm_currentJob = Builtin\<rparr>)"
  by (simp add: check_status_def lp_defs)


subsection \<open>C9: the snapshot a new subscriber receives\<close>

text \<open>
  C9: when the writes to a new subscriber's response do not throw, \<open>GET /events\<close>
  registers the client and writes to its response, in one call and in this order: the
  welcome event (its \<open>id\<close> line is the client id, its type is \<open>connection\<close>, its data is
  the welcome record with the client id and the timestamp); for every stored stock, in
  the map's order, an event of type \<open>stock_price\<close> whose data is that stock; for every
  stored job, in the map's order, an event of type \<open>job_progress\<close> whose data is that
  job. Nothing else is written and no other client is touched.
\<close>

theorem subscriber_snapshot:
  assumes "write_error s r = None"
  shows "events f clientId isoTime clock r s =
     Inr (s\<lparr>connectedClients := map_set clientId r (connectedClients s),
            heads := heads s @ [r],
            wire := wire s @ map (Pair r)
              ((if clientId = '''' then [] else [''id: '' @ clientId @ ''\<newline>''])
               @ [''event: connection\<newline>'',
                  ''data: '' @ f (Welcome ''Connected to SSE stream successfully!'' clientId isoTime)
                    @ ''\<newline>\<newline>'']
               @ concat (map (\<lambda>ikv.
                    [''id: stock_'' @ symbol (snd (snd ikv)) @ ''_'' @ num_str (clock (fst ikv))
                       @ ''\<newline>'',
                     ''event: stock_price\<newline>'',
                     ''data: '' @ f (Stock (snd (snd ikv))) @ ''\<newline>\<newline>''])
                  (zip [0..<length (stockPrices s)] (stockPrices s)))
               @ concat (map (\<lambda>ikv.
                    [''id: job_'' @ jp_jobId (snd (snd ikv)) @ ''_''
                       @ num_str (clock (length (stockPrices s) + fst ikv)) @ ''\<newline>'',
                     ''event: job_progress\<newline>'',
                     ''data: '' @ f (JobData (snd (snd ikv))) @ ''\<newline>\<newline>''])
                  (zip [0..<length (jobProgresses s)] (jobProgresses s))))\<rparr>)"
  using assms
  by (simp add: events_def sendSSEEvent_ok sendCurrentStockPrices_def sendCurrentJobs_def
      send_each_ok comp_def event_chunks_def welcomeEvent_def stock_event_def job_event_def
      falsy_def or_empty_def)

theorem subscriber_snapshot_witness:
  "map_sum id (\<lambda>s. (connectedClients s, wire s))
     (events (\<lambda>ob. case ob of Welcome m c t \<Rightarrow> c @ '' at '' @ t
                               | Stock st \<Rightarrow> symbol st
                               | JobData jp \<Rightarrow> jp_jobId jp)
        ''client_d'' ''2025'' (\<lambda>k. 5 + k) 4
        (sse_example\<lparr>stockPrices :=
           [(''AAPL'', \<lparr>symbol = ''AAPL'', price = 150, change = 0, changePercent = 0,
                          timestamp = 0\<rparr>),
            (''MSFT'', \<lparr>symbol = ''MSFT'', price = 300, change = 0, changePercent = 0,
                          timestamp = 0\<rparr>)]\<rparr>))
   = Inr ([(''client_a'', 1), (''client_b'', 2), (''client_c'', 3), (''client_d'', 4)],
          [(4, ''id: client_d\<newline>''), (4, ''event: connection\<newline>''),
           (4, ''data: client_d at 2025\<newline>\<newline>''),
           (4, ''id: stock_AAPL_5\<newline>''), (4, ''event: stock_price\<newline>''),
           (4, ''data: AAPL\<newline>\<newline>''),
           (4, ''id: stock_MSFT_6\<newline>''), (4, ''event: stock_price\<newline>''),
           (4, ''data: MSFT\<newline>\<newline>''),
           (4, ''id: job_j1_7\<newline>''), (4, ''event: job_progress\<newline>''),
           (4, ''data: j1\<newline>\<newline>'')])"
proof -
  have h: "write_error (sse_example\<lparr>stockPrices :=
           [(''AAPL'', \<lparr>symbol = ''AAPL'', price = 150, change = 0, changePercent = 0,
                          timestamp = 0\<rparr>),
            (''MSFT'', \<lparr>symbol = ''MSFT'', price = 300, change = 0, changePercent = 0,
                          timestamp = 0\<rparr>)]\<rparr>) 4 = None"
    by (simp add: sse_example_def)
  show ?thesis
    using subscriber_snapshot [OF h, of "\<lambda>ob. case ob of Welcome m c t \<Rightarrow> c @ '' at '' @ t
                               | Stock st \<Rightarrow> symbol st
                               | JobData jp \<Rightarrow> jp_jobId jp" "''client_d''" "''2025''" "\<lambda>k. 5 + k"]
    by (simp add: sse_example_def upt_rec num_str.simps digit_char_def)
qed


subsection \<open>C10: chat messages and join notices\<close>

text \<open>
  C10: a text message from a connection is sent, as \<open>User<port> says: <message>\<close>, to
  every stored connection that is connected, the sender among them when it is stored and
  connected; when a request is accepted, the join notice goes to every connected
  connection but the new one, and the new one receives the welcome text only.
\<close>

theorem chat_broadcast:
  "outbox (on_message c (Utf8 m) s) =
     outbox s @ map (\<lambda>k. (k, ''User'' @ num_str (remotePort s c) @ '' says: '' @ m))
       (filter (connected s) (connections s))
   \<and> (c \<in> set (connections s) \<and> connected s c \<longrightarrow>
        (c, ''User'' @ num_str (remotePort s c) @ '' says: '' @ m)
          \<in> set (drop (length (outbox s)) (outbox (on_message c (Utf8 m) s))))
   \<and> (originIsAllowed origin \<longrightarrow>
        outbox (on_request origin port s) =
          outbox s @ map (\<lambda>k. (k, ''User'' @ num_str port @ '' has joined the chat''))
            (filter (\<lambda>k. connected s k \<and> k \<noteq> next_conn s) (connections s))
          @ [(next_conn s, ''Welcome! You are User'' @ num_str port @ ''. There are ''
                @ num_str (Suc (length (connections s))) @ '' users online.'')])"
  by (auto simp: on_message_def send_where_eq on_request_outbox)

theorem chat_broadcast_witness:
  "0 \<in> set (connections push_example) \<and> connected push_example 0
   \<and> originIsAllowed (Some ''http://localhost:8080'')
   \<and> (0, ''User5000 says: hi'') \<in> set (drop (length (outbox push_example))
          (outbox (on_message 0 (Utf8 ''hi'') push_example)))
   \<and> outbox (on_request (Some ''http://localhost:8080'') 5002 push_example) =
        outbox push_example @ [(0, ''User5002 has joined the chat''),
          (1, ''User5002 has joined the chat''),
          (2, ''Welcome! You are User5002. There are 3 users online.'')]"
proof -
  have o: "originIsAllowed (Some ''http://localhost:8080'')"
    by (simp add: originIsAllowed_def allowedOrigins_def)
  show ?thesis
    using chat_broadcast [of 0 "''hi''" push_example "Some ''http://localhost:8080''" 5002]
      push_example_state o
    by (simp add: num_str.simps digit_char_def)
qed

end
